theory Spec2Isabelle
  imports Main "HOL-Library.Word" "HOL-Library.Sublist"
begin

section \<open>Values of the program\<close>

text \<open>
  The program (\<^verbatim>\<open>main.py\<close>) is sequential glue around three kinds of effects: HTTP calls
  made with the \<^verbatim>\<open>requests\<close> library, lines printed to standard output, and one local file
  opened for writing. The embedding keeps the code's control flow and makes every effect
  an entry of an explicit trace.

  Python \<^verbatim>\<open>str\<close> values are modelled as \<^typ>\<open>string\<close> (the characters range over the
  8-bit code points), \<^verbatim>\<open>bytes\<close> as lists of 8-bit words, Python integers as \<^typ>\<open>int\<close>.
\<close>

type_synonym byte = "8 word"

text \<open>
  What \<^verbatim>\<open>response.json()\<close> hands to the program: any JSON value, not only an object.
  \<open>JObj\<close> is the decoded Python \<^verbatim>\<open>dict\<close>, looked up with \<^const>\<open>map_of\<close>; \<open>JFloat m e\<close> stands
  for a JSON number with a fraction or exponent.
\<close>

datatype json =
    JNull
  | JBool bool
  | JInt int
  | JFloat int int
  | JStr string
  | JArr "json list"
  | JObj "(string \<times> json) list"

text \<open>Python exceptions that no handler of the program catches.\<close>

datatype py_error = TypeError | AttributeError | KeyError | EOFError

text \<open>
  The exceptions below are all subclasses of \<^verbatim>\<open>requests.exceptions.RequestException\<close>,
  which is what the \<^verbatim>\<open>except\<close> clauses of the three network operations catch:
  a transport failure, the \<^verbatim>\<open>HTTPError\<close> of \<^verbatim>\<open>raise_for_status\<close>, the
  \<^verbatim>\<open>JSONDecodeError\<close> of \<^verbatim>\<open>response.json()\<close> on a body that is not JSON
  (a \<^verbatim>\<open>RequestException\<close> since requests 2.27), and the error raised while preparing a
  request whose URL is not a string (\<^verbatim>\<open>MissingSchema\<close>, \<^verbatim>\<open>InvalidSchema\<close>).
\<close>

datatype request_exception =
    ConnectionError string
  | HTTPError int
  | JSONDecodeError
  | BadURL json

datatype http_method = GET | PUT

record request =
  req_method :: http_method
  req_url :: string
  req_headers :: "(string \<times> string) list"
  req_data :: "byte list option"
  req_timeout :: "nat option"

record response =
  status_code :: int
  content :: "byte list"
  json_body :: "json option"

datatype http_outcome = Responds response | Fails string

text \<open>
  The printed lines are Russian f-strings; each \<^verbatim>\<open>print\<close> statement of the source is one
  constructor, carrying the values the f-string interpolates.
\<close>

datatype message =
    MsgBanner
  | MsgFieldsRequired
  | MsgBackupStart string
  | MsgFolderReady string
  | MsgFolderStatus int
  | MsgFolderException request_exception
  | MsgImageException request_exception
  | MsgFetchingImage
  | MsgImageFailed
  | MsgUploading
  | MsgUploadUrlError json
  | MsgUploadStatus int
  | MsgUploadException request_exception
  | MsgSaved string
  | MsgSaveException string
  | MsgBackupSuccess
  | MsgUploadedSize json
  | MsgBackupErrors

datatype prompt = PromptText | PromptToken | PromptGroup

datatype event =
    Print message
  | Prompt prompt
  | Net request
  | OpenW string

section \<open>The outside world\<close>

text \<open>
  \<open>env\<close> is what the program cannot control: how the network answers a request, whether
  opening a file for writing fails (\<open>Some\<close> the error text), and what the clock reads at the
  \<open>n\<close>-th call of \<^verbatim>\<open>datetime.now()\<close>. The five requests of one run differ pairwise in method,
  URL, headers or body, so an answer per request loses no behaviour of a stateful server.

  \<open>world\<close> is what the program changes: the trace of its effects in order, the local files
  (a file written by \<^verbatim>\<open>json.dump\<close> is represented by the document it holds), the number of
  clock reads so far, and the lines still waiting on standard input.
\<close>

record env =
  http :: "request \<Rightarrow> http_outcome"
  open_w :: "string \<Rightarrow> string option"
  now_iso :: "nat \<Rightarrow> string"

record world =
  trace :: "event list"
  files :: "string \<rightharpoonup> json"
  ticks :: nat
  stdin :: "string list"

definition emit :: "event \<Rightarrow> world \<Rightarrow> world" where
  "emit e w = w\<lparr>trace := trace w @ [e]\<rparr>"

definition print :: "message \<Rightarrow> world \<Rightarrow> world" where
  "print m w = emit (Print m) w"

definition datetime_now :: "env \<Rightarrow> world \<Rightarrow> string \<times> world" where
  "datetime_now E w = (now_iso E (ticks w), w\<lparr>ticks := Suc (ticks w)\<rparr>)"

section \<open>The library calls the program relies on\<close>

definition send :: "env \<Rightarrow> request \<Rightarrow> world \<Rightarrow> (request_exception + response) \<times> world" where
  "send E r w =
     (case http E r of
        Responds resp \<Rightarrow> (Inr resp, emit (Net r) w)
      | Fails m \<Rightarrow> (Inl (ConnectionError m), emit (Net r) w))"

text \<open>\<^verbatim>\<open>requests.get(url, headers=..., timeout=...)\<close>\<close>

definition requests_get ::
  "env \<Rightarrow> string \<Rightarrow> (string \<times> string) list \<Rightarrow> nat option \<Rightarrow> world
     \<Rightarrow> (request_exception + response) \<times> world" where
  "requests_get E u hs t w =
     send E \<lparr>req_method = GET, req_url = u, req_headers = hs, req_data = None, req_timeout = t\<rparr> w"

text \<open>\<^verbatim>\<open>requests.put(url, headers=..., data=...)\<close>\<close>

definition requests_put ::
  "env \<Rightarrow> string \<Rightarrow> (string \<times> string) list \<Rightarrow> byte list option \<Rightarrow> world
     \<Rightarrow> (request_exception + response) \<times> world" where
  "requests_put E u hs d w =
     send E \<lparr>req_method = PUT, req_url = u, req_headers = hs, req_data = d, req_timeout = None\<rparr> w"

text \<open>
  \<^verbatim>\<open>Response.raise_for_status()\<close> raises \<^verbatim>\<open>HTTPError\<close> for the client and server error
  classes, that is for a status from 400 to 599, and returns otherwise.
\<close>

definition raise_for_status :: "response \<Rightarrow> request_exception option" where
  "raise_for_status r =
     (if 400 \<le> status_code r \<and> status_code r < 600 then Some (HTTPError (status_code r)) else None)"

text \<open>\<^verbatim>\<open>Response.json()\<close>\<close>

definition response_json :: "response \<Rightarrow> request_exception + json" where
  "response_json r = (case json_body r of None \<Rightarrow> Inl JSONDecodeError | Some v \<Rightarrow> Inr v)"

text \<open>Python's \<^verbatim>\<open>sub in s\<close> on strings: \<open>sub\<close> occurs in \<open>s\<close> as a contiguous run.\<close>

fun py_str_contains :: "string \<Rightarrow> string \<Rightarrow> bool" where
  "py_str_contains sub [] = (sub = [])"
| "py_str_contains sub (c # cs) = (take (length sub) (c # cs) = sub \<or> py_str_contains sub cs)"

text \<open>\<^verbatim>\<open>key in value\<close>, for a string key and a decoded JSON value.\<close>

fun py_in :: "string \<Rightarrow> json \<Rightarrow> py_error + bool" where
  "py_in k (JObj d) = Inr (k \<in> fst ` set d)"
| "py_in k (JArr xs) = Inr (JStr k \<in> set xs)"
| "py_in k (JStr s) = Inr (py_str_contains k s)"
| "py_in k JNull = Inl TypeError"
| "py_in k (JBool b) = Inl TypeError"
| "py_in k (JInt i) = Inl TypeError"
| "py_in k (JFloat m e) = Inl TypeError"

text \<open>\<^verbatim>\<open>value[key]\<close>, for a string key.\<close>

fun py_getitem :: "json \<Rightarrow> string \<Rightarrow> py_error + json" where
  "py_getitem (JObj d) k = (case map_of d k of None \<Rightarrow> Inl KeyError | Some v \<Rightarrow> Inr v)"
| "py_getitem (JArr xs) k = Inl TypeError"
| "py_getitem (JStr s) k = Inl TypeError"
| "py_getitem JNull k = Inl TypeError"
| "py_getitem (JBool b) k = Inl TypeError"
| "py_getitem (JInt i) k = Inl TypeError"
| "py_getitem (JFloat m e) k = Inl TypeError"

text \<open>\<^verbatim>\<open>value.get(key, default)\<close>: only a \<^verbatim>\<open>dict\<close> has the method.\<close>

fun py_get :: "json \<Rightarrow> string \<Rightarrow> json \<Rightarrow> py_error + json" where
  "py_get (JObj d) k dflt = Inr (case map_of d k of None \<Rightarrow> dflt | Some v \<Rightarrow> v)"
| "py_get (JArr xs) k dflt = Inl AttributeError"
| "py_get (JStr s) k dflt = Inl AttributeError"
| "py_get JNull k dflt = Inl AttributeError"
| "py_get (JBool b) k dflt = Inl AttributeError"
| "py_get (JInt i) k dflt = Inl AttributeError"
| "py_get (JFloat m e) k dflt = Inl AttributeError"

text \<open>Truth value of a decoded JSON value in an \<^verbatim>\<open>if\<close>.\<close>

fun py_truthy :: "json \<Rightarrow> bool" where
  "py_truthy JNull = False"
| "py_truthy (JBool b) = b"
| "py_truthy (JInt i) = (i \<noteq> 0)"
| "py_truthy (JFloat m e) = (m \<noteq> 0)"
| "py_truthy (JStr s) = (s \<noteq> [])"
| "py_truthy (JArr xs) = (xs \<noteq> [])"
| "py_truthy (JObj d) = (d \<noteq> [])"

text \<open>
  \<^verbatim>\<open>str.isspace\<close> on the 8-bit code points, and \<^verbatim>\<open>str.strip()\<close> without argument.
\<close>

definition py_isspace :: "char \<Rightarrow> bool" where
  "py_isspace c = (of_char c \<in> {9, 10, 11, 12, 13, 28, 29, 30, 31, 32, 133, 160 :: nat})"

definition strip :: "string \<Rightarrow> string" where
  "strip s = rev (dropWhile py_isspace (rev (dropWhile py_isspace s)))"

text \<open>
  \<^verbatim>\<open>input(prompt)\<close> writes the prompt and reads one line; at end of input it raises
  \<^verbatim>\<open>EOFError\<close>.
\<close>

definition input :: "prompt \<Rightarrow> world \<Rightarrow> (py_error + string) \<times> world" where
  "input p w =
     (case stdin w of
        [] \<Rightarrow> (Inl EOFError, emit (Prompt p) w)
      | l # ls \<Rightarrow> (Inr l, (emit (Prompt p) w)\<lparr>stdin := ls\<rparr>))"

section \<open>Class \<^verbatim>\<open>CatBackup\<close>\<close>

record cat_backup =
  yandex_token :: string
  yandex_base_url :: string
  headers :: "(string \<times> string) list"

definition CatBackup :: "string \<Rightarrow> cat_backup" where
  "CatBackup tok =
     \<lparr>yandex_token = tok,
      yandex_base_url = ''https://cloud-api.yandex.net/v1/disk/resources'',
      headers = [(''Authorization'', ''OAuth '' @ tok), (''Content-Type'', ''application/json'')]\<rparr>"

definition get_cat_image :: "env \<Rightarrow> string \<Rightarrow> world \<Rightarrow> byte list option \<times> world" where
  "get_cat_image E text w =
     (case requests_get E (''https://cataas.com/cat/says/'' @ text) [] (Some 10) w of
        (Inl e, w1) \<Rightarrow> (None, print (MsgImageException e) w1)
      | (Inr response, w1) \<Rightarrow>
          (case raise_for_status response of
             Some e \<Rightarrow> (None, print (MsgImageException e) w1)
           | None \<Rightarrow> (Some (content response), w1)))"

definition create_folder :: "env \<Rightarrow> cat_backup \<Rightarrow> string \<Rightarrow> world \<Rightarrow> bool \<times> world" where
  "create_folder E self folder_name w =
     (case requests_put E (yandex_base_url self @ ''?path='' @ folder_name) (headers self) None w of
        (Inl e, w1) \<Rightarrow> (False, print (MsgFolderException e) w1)
      | (Inr response, w1) \<Rightarrow>
          if status_code response \<in> {201, 409}
          then (True, print (MsgFolderReady folder_name) w1)
          else (False, print (MsgFolderStatus (status_code response)) w1))"

text \<open>
  \<^verbatim>\<open>upload_to_yandex\<close> is split at its two comments: \<open>upload_file_info\<close> is the block
  under "get the file information" (source lines 90 to 102), \<open>upload_file\<close> the block under
  "upload the file" (lines 85 to 105), \<open>upload_to_yandex\<close> the whole method. The result is
  \<open>Inr (Some d)\<close> for the returned \<^verbatim>\<open>dict\<close>, \<open>Inr None\<close> for \<^verbatim>\<open>return None\<close>, and \<open>Inl x\<close> when
  an exception that is not a \<^verbatim>\<open>RequestException\<close> leaves the method.

  A \<^verbatim>\<open>href\<close> that is not a string makes \<^verbatim>\<open>requests.put\<close> raise while it prepares the URL,
  before anything is sent.
\<close>

definition upload_file_info ::
  "env \<Rightarrow> cat_backup \<Rightarrow> string \<Rightarrow> string \<Rightarrow> response \<Rightarrow> world
     \<Rightarrow> (py_error + json option) \<times> world" where
  "upload_file_info E self folder_name file_name put_response w =
     (case requests_get E (yandex_base_url self @ ''?path='' @ folder_name @ ''/'' @ file_name @ ''.jpg'')
             (headers self) None w of
        (Inl e, w1) \<Rightarrow> (Inr None, print (MsgUploadException e) w1)
      | (Inr file_info_response, w1) \<Rightarrow>
          if status_code file_info_response = 200 then
            (case response_json file_info_response of
               Inl e \<Rightarrow> (Inr None, print (MsgUploadException e) w1)
             | Inr file_info \<Rightarrow>
                 (case py_get file_info ''size'' (JInt 0) of
                    Inl x \<Rightarrow> (Inl x, w1)
                  | Inr size_v \<Rightarrow>
                      (case datetime_now E w1 of
                         (created, w2) \<Rightarrow>
                           (case py_get file_info ''path'' (JStr []) of
                              Inl x \<Rightarrow> (Inl x, w2)
                            | Inr path_v \<Rightarrow>
                                (Inr (Some (JObj
                                   [(''file_name'', JStr (file_name @ ''.jpg'')),
                                    (''size'', size_v),
                                    (''created'', JStr created),
                                    (''path'', path_v)])), w2)))))
          else (Inr None, print (MsgUploadStatus (status_code put_response)) w1))"

definition upload_file ::
  "env \<Rightarrow> cat_backup \<Rightarrow> string \<Rightarrow> string \<Rightarrow> byte list \<Rightarrow> json \<Rightarrow> world
     \<Rightarrow> (py_error + json option) \<times> world" where
  "upload_file E self folder_name file_name image_content upload_url w =
     (case (case upload_url of
              JStr u \<Rightarrow> requests_put E u [] (Some image_content) w
            | _ \<Rightarrow> (Inl (BadURL upload_url), w)) of
        (Inl e, w1) \<Rightarrow> (Inr None, print (MsgUploadException e) w1)
      | (Inr put_response, w1) \<Rightarrow>
          if status_code put_response = 201
          then upload_file_info E self folder_name file_name put_response w1
          else (Inr None, print (MsgUploadStatus (status_code put_response)) w1))"

definition upload_to_yandex ::
  "env \<Rightarrow> cat_backup \<Rightarrow> string \<Rightarrow> string \<Rightarrow> byte list \<Rightarrow> world
     \<Rightarrow> (py_error + json option) \<times> world" where
  "upload_to_yandex E self folder_name file_name image_content w =
     (case requests_get E
             (yandex_base_url self @ ''/upload?path='' @ folder_name @ ''/'' @ file_name
                @ ''.jpg&overwrite=true'')
             (headers self) None w of
        (Inl e, w1) \<Rightarrow> (Inr None, print (MsgUploadException e) w1)
      | (Inr upload_response, w1) \<Rightarrow>
          (case response_json upload_response of
             Inl e \<Rightarrow> (Inr None, print (MsgUploadException e) w1)
           | Inr upload_data \<Rightarrow>
               (case py_in ''href'' upload_data of
                  Inl x \<Rightarrow> (Inl x, w1)
                | Inr False \<Rightarrow> (Inr None, print (MsgUploadUrlError upload_data) w1)
                | Inr True \<Rightarrow>
                    (case py_getitem upload_data ''href'' of
                       Inl x \<Rightarrow> (Inl x, w1)
                     | Inr upload_url \<Rightarrow>
                         upload_file E self folder_name file_name image_content upload_url w1))))"

text \<open>
  \<^verbatim>\<open>open(filename, 'w')\<close> either raises (the file is left as it was) or truncates the
  file, and \<^verbatim>\<open>json.dump\<close> then writes the document. \<^verbatim>\<open>except Exception\<close> catches the error
  and the method returns nothing in both cases. The parameter \<^verbatim>\<open>filename\<close> defaults to
  \<^verbatim>\<open>backup_info.json\<close>; the only caller, \<open>backup_cats\<close>, relies on the default, which the
  model passes explicitly.
\<close>

definition save_to_json :: "env \<Rightarrow> json \<Rightarrow> string \<Rightarrow> world \<Rightarrow> world" where
  "save_to_json E data filename w =
     (case open_w E filename of
        Some err \<Rightarrow> print (MsgSaveException err) (emit (OpenW filename) w)
      | None \<Rightarrow>
          print (MsgSaved filename)
            ((emit (OpenW filename) w)\<lparr>files := (files w)(filename \<mapsto> data)\<rparr>))"

definition backup_cats ::
  "env \<Rightarrow> cat_backup \<Rightarrow> string \<Rightarrow> string \<Rightarrow> world \<Rightarrow> (py_error + unit) \<times> world" where
  "backup_cats E self text group_name w =
     (case create_folder E self group_name (print (MsgBackupStart text) w) of
        (False, w1) \<Rightarrow> (Inr (), w1)
      | (True, w1) \<Rightarrow>
          (case get_cat_image E text (print MsgFetchingImage w1) of
             (None, w2) \<Rightarrow> (Inr (), print MsgImageFailed w2)
           | (Some image_content, w2) \<Rightarrow>
               if image_content = [] then (Inr (), print MsgImageFailed w2)
               else
                 (case upload_to_yandex E self group_name text image_content (print MsgUploading w2) of
                    (Inl x, w3) \<Rightarrow> (Inl x, w3)
                  | (Inr None, w3) \<Rightarrow> (Inr (), print MsgBackupErrors w3)
                  | (Inr (Some file_info), w3) \<Rightarrow>
                      if py_truthy file_info then
                        (case datetime_now E w3 of
                           (timestamp, w4) \<Rightarrow>
                             let backup_data =
                                   JObj [(''backup_info'', JObj
                                     [(''timestamp'', JStr timestamp),
                                      (''text'', JStr text),
                                      (''group_name'', JStr group_name),
                                      (''files'', JArr [file_info])])];
                                 w5 = save_to_json E backup_data ''backup_info.json'' w4;
                                 w6 = print MsgBackupSuccess w5
                             in (case py_getitem file_info ''size'' of
                                   Inl x \<Rightarrow> (Inl x, w6)
                                 | Inr size_v \<Rightarrow> (Inr (), print (MsgUploadedSize size_v) w6)))
                      else (Inr (), print MsgBackupErrors w3))))"

section \<open>The entry point\<close>

definition main :: "env \<Rightarrow> world \<Rightarrow> (py_error + unit) \<times> world" where
  "main E w =
     (case input PromptText (print MsgBanner w) of
        (Inl x, w1) \<Rightarrow> (Inl x, w1)
      | (Inr l1, w1) \<Rightarrow>
          (case input PromptToken w1 of
             (Inl x, w2) \<Rightarrow> (Inl x, w2)
           | (Inr l2, w2) \<Rightarrow>
               (case input PromptGroup w2 of
                  (Inl x, w3) \<Rightarrow> (Inl x, w3)
                | (Inr l3, w3) \<Rightarrow>
                    if strip l1 = [] \<or> strip l2 = [] \<or> strip l3 = []
                    then (Inr (), print MsgFieldsRequired w3)
                    else backup_cats E (CatBackup (strip l2)) (strip l1) (strip l3) w3)))"

section \<open>Reading a run\<close>

text \<open>
  The definitions of this section are not part of the program. They name the requests the
  program sends, read the outcome of each step off the environment's answers, and project
  a trace onto its effects, so that the claims can be stated.

  An effect is a network call or the opening of a file for writing; printed lines and
  prompts are output only.
\<close>

fun is_effect :: "event \<Rightarrow> bool" where
  "is_effect (Print m) = False"
| "is_effect (Prompt p) = False"
| "is_effect (Net r) = True"
| "is_effect (OpenW f) = True"

definition effects :: "event list \<Rightarrow> event list" where
  "effects es = filter is_effect es"

text \<open>The events a run added to the trace of the world it started in.\<close>

definition new_events :: "world \<Rightarrow> world \<Rightarrow> event list" where
  "new_events w w' = drop (length (trace w)) (trace w')"

text \<open>
  The five requests, as the arguments of the calls at source lines 46, 31, 74, 86 and 90.
\<close>

definition folder_request :: "cat_backup \<Rightarrow> string \<Rightarrow> request" where
  "folder_request self folder_name =
     \<lparr>req_method = PUT, req_url = yandex_base_url self @ ''?path='' @ folder_name,
      req_headers = headers self, req_data = None, req_timeout = None\<rparr>"

definition image_request :: "string \<Rightarrow> request" where
  "image_request text =
     \<lparr>req_method = GET, req_url = ''https://cataas.com/cat/says/'' @ text,
      req_headers = [], req_data = None, req_timeout = Some 10\<rparr>"

definition upload_url_request :: "cat_backup \<Rightarrow> string \<Rightarrow> string \<Rightarrow> request" where
  "upload_url_request self folder_name file_name =
     \<lparr>req_method = GET,
      req_url = yandex_base_url self @ ''/upload?path='' @ folder_name @ ''/'' @ file_name
                  @ ''.jpg&overwrite=true'',
      req_headers = headers self, req_data = None, req_timeout = None\<rparr>"

definition put_request :: "string \<Rightarrow> byte list \<Rightarrow> request" where
  "put_request u image_content =
     \<lparr>req_method = PUT, req_url = u, req_headers = [], req_data = Some image_content,
      req_timeout = None\<rparr>"

definition info_request :: "cat_backup \<Rightarrow> string \<Rightarrow> string \<Rightarrow> request" where
  "info_request self folder_name file_name =
     \<lparr>req_method = GET,
      req_url = yandex_base_url self @ ''?path='' @ folder_name @ ''/'' @ file_name @ ''.jpg'',
      req_headers = headers self, req_data = None, req_timeout = None\<rparr>"

text \<open>
  The outcome of each step, read off the answer to its request: the folder request is
  answered 201 or 409; the image request is answered without a 4xx or 5xx status and carries
  these bytes; the answer to the write-URL request is a JSON object with the key
  \<^verbatim>\<open>href\<close>; the upload of the bytes to that URL is answered 201; the metadata request is
  answered 200.
\<close>

definition folder_created :: "env \<Rightarrow> cat_backup \<Rightarrow> string \<Rightarrow> bool" where
  "folder_created E self folder_name =
     (case http E (folder_request self folder_name) of
        Responds r \<Rightarrow> status_code r = 201 \<or> status_code r = 409
      | Fails m \<Rightarrow> False)"

definition fetched :: "env \<Rightarrow> string \<Rightarrow> byte list option" where
  "fetched E text =
     (case http E (image_request text) of
        Responds r \<Rightarrow>
          if 400 \<le> status_code r \<and> status_code r < 600 then None else Some (content r)
      | Fails m \<Rightarrow> None)"

definition write_url :: "env \<Rightarrow> cat_backup \<Rightarrow> string \<Rightarrow> string \<Rightarrow> json option" where
  "write_url E self folder_name file_name =
     (case http E (upload_url_request self folder_name file_name) of
        Responds r \<Rightarrow>
          (case json_body r of
             Some (JObj d) \<Rightarrow> map_of d ''href''
           | _ \<Rightarrow> None)
      | Fails m \<Rightarrow> None)"

definition put_accepted :: "env \<Rightarrow> json \<Rightarrow> byte list \<Rightarrow> bool" where
  "put_accepted E upload_url image_content =
     (case upload_url of
        JStr u \<Rightarrow>
          (case http E (put_request u image_content) of
             Responds r \<Rightarrow> status_code r = 201
           | Fails m \<Rightarrow> False)
      | _ \<Rightarrow> False)"

definition info_answered :: "env \<Rightarrow> cat_backup \<Rightarrow> string \<Rightarrow> string \<Rightarrow> bool" where
  "info_answered E self folder_name file_name =
     (case http E (info_request self folder_name file_name) of
        Responds r \<Rightarrow> status_code r = 200
      | Fails m \<Rightarrow> False)"

definition upload_steps_ok :: "env \<Rightarrow> cat_backup \<Rightarrow> string \<Rightarrow> string \<Rightarrow> byte list \<Rightarrow> bool" where
  "upload_steps_ok E self folder_name file_name image_content =
     (case write_url E self folder_name file_name of
        None \<Rightarrow> False
      | Some upload_url \<Rightarrow>
          put_accepted E upload_url image_content \<and> info_answered E self folder_name file_name)"

text \<open>
  The decoded bodies on which line 80 (\<^verbatim>\<open>'href' not in upload_data\<close>) or line 85
  (\<^verbatim>\<open>upload_data['href']\<close>) raises: a number, a boolean or null, and a string or an array
  that contains \<^verbatim>\<open>href\<close>. No JSON object is among them.
\<close>

definition href_lookup_raises :: "json \<Rightarrow> bool" where
  "href_lookup_raises d =
     (case py_in ''href'' d of
        Inl x \<Rightarrow> True
      | Inr False \<Rightarrow> False
      | Inr True \<Rightarrow> (case py_getitem d ''href'' of Inl x \<Rightarrow> True | Inr v \<Rightarrow> False))"

definition write_url_body_raises :: "env \<Rightarrow> cat_backup \<Rightarrow> string \<Rightarrow> string \<Rightarrow> bool" where
  "write_url_body_raises E self folder_name file_name =
     (case http E (upload_url_request self folder_name file_name) of
        Responds r \<Rightarrow> (case json_body r of None \<Rightarrow> False | Some d \<Rightarrow> href_lookup_raises d)
      | Fails m \<Rightarrow> False)"

text \<open>
  The provider's metadata object, when all three steps of the upload succeed and the
  metadata answer decodes to an object; \<open>file_entry\<close> is the dictionary built from it at
  source lines 97 to 102.
\<close>

definition metadata ::
  "env \<Rightarrow> cat_backup \<Rightarrow> string \<Rightarrow> string \<Rightarrow> byte list \<Rightarrow> (string \<times> json) list option" where
  "metadata E self folder_name file_name image_content =
     (if upload_steps_ok E self folder_name file_name image_content then
        (case http E (info_request self folder_name file_name) of
           Responds r \<Rightarrow> (case json_body r of Some (JObj m) \<Rightarrow> Some m | _ \<Rightarrow> None)
         | Fails m \<Rightarrow> None)
      else None)"

definition file_entry :: "string \<Rightarrow> (string \<times> json) list \<Rightarrow> string \<Rightarrow> json" where
  "file_entry file_name m created =
     JObj [(''file_name'', JStr (file_name @ ''.jpg'')),
           (''size'', case map_of m ''size'' of None \<Rightarrow> JInt 0 | Some v \<Rightarrow> v),
           (''created'', JStr created),
           (''path'', case map_of m ''path'' of None \<Rightarrow> JStr [] | Some v \<Rightarrow> v)]"

text \<open>The network calls of the upload, of a whole run, and the document a run writes.\<close>

definition put_effects :: "env \<Rightarrow> cat_backup \<Rightarrow> string \<Rightarrow> string \<Rightarrow> byte list \<Rightarrow> json \<Rightarrow> event list" where
  "put_effects E self folder_name file_name image_content upload_url =
     (case upload_url of
        JStr u \<Rightarrow>
          Net (put_request u image_content) #
          (if put_accepted E upload_url image_content
           then [Net (info_request self folder_name file_name)] else [])
      | _ \<Rightarrow> [])"

definition upload_effects ::
  "env \<Rightarrow> cat_backup \<Rightarrow> string \<Rightarrow> string \<Rightarrow> byte list \<Rightarrow> event list" where
  "upload_effects E self folder_name file_name image_content =
     Net (upload_url_request self folder_name file_name) #
     (case write_url E self folder_name file_name of
        None \<Rightarrow> []
      | Some upload_url \<Rightarrow> put_effects E self folder_name file_name image_content upload_url)"

definition href_of :: "json \<Rightarrow> json option" where
  "href_of d = (case d of JObj m \<Rightarrow> map_of m ''href'' | _ \<Rightarrow> None)"

definition backup_document :: "string \<Rightarrow> string \<Rightarrow> string \<Rightarrow> json \<Rightarrow> json" where
  "backup_document timestamp text group_name file_info =
     JObj [(''backup_info'', JObj
       [(''timestamp'', JStr timestamp),
        (''text'', JStr text),
        (''group_name'', JStr group_name),
        (''files'', JArr [file_info])])]"

definition written_record :: "env \<Rightarrow> cat_backup \<Rightarrow> string \<Rightarrow> string \<Rightarrow> nat \<Rightarrow> json option" where
  "written_record E self text group_name t =
     (if folder_created E self group_name then
        (case fetched E text of
           None \<Rightarrow> None
         | Some c \<Rightarrow>
             if c = [] then None
             else
               (case metadata E self group_name text c of
                  None \<Rightarrow> None
                | Some m \<Rightarrow>
                    Some (backup_document (now_iso E (Suc t)) text group_name
                            (file_entry text m (now_iso E t)))))
      else None)"

definition run_effects :: "env \<Rightarrow> cat_backup \<Rightarrow> string \<Rightarrow> string \<Rightarrow> event list" where
  "run_effects E self text group_name =
     Net (folder_request self group_name) #
     (if folder_created E self group_name then
        Net (image_request text) #
        (case fetched E text of
           None \<Rightarrow> []
         | Some c \<Rightarrow>
             if c = [] then []
             else upload_effects E self group_name text c @
                  (case metadata E self group_name text c of
                     None \<Rightarrow> []
                   | Some m \<Rightarrow> [OpenW ''backup_info.json'']))
      else [])"

text \<open>The effects of one run of \<open>backup_cats\<close>, in order, and the files opened among them.\<close>

definition run_trace :: "env \<Rightarrow> cat_backup \<Rightarrow> string \<Rightarrow> string \<Rightarrow> world \<Rightarrow> event list" where
  "run_trace E self text group_name w =
     effects (new_events w (snd (backup_cats E self text group_name w)))"

fun opened_files :: "event list \<Rightarrow> string list" where
  "opened_files [] = []"
| "opened_files (OpenW f # es) = f # opened_files es"
| "opened_files (e # es) = opened_files es"

section \<open>Example environments\<close>

text \<open>
  Concrete environments on which the theorems below are exercised. \<open>scripted\<close> answers the
  five requests of a run for the token \<^verbatim>\<open>tok\<close>, the caption \<^verbatim>\<open>cat\<close>, the folder
  \<^verbatim>\<open>grp\<close> and the three image bytes 1, 2, 3 with the five given outcomes, and any other
  request with a transport failure.
\<close>

definition respond :: "int \<Rightarrow> byte list \<Rightarrow> json option \<Rightarrow> http_outcome" where
  "respond s c j = Responds \<lparr>status_code = s, content = c, json_body = j\<rparr>"

definition scripted ::
  "http_outcome \<Rightarrow> http_outcome \<Rightarrow> http_outcome \<Rightarrow> http_outcome \<Rightarrow> http_outcome
     \<Rightarrow> string option \<Rightarrow> env" where
  "scripted a_folder a_image a_write a_put a_info a_open =
     \<lparr>http = (\<lambda>r.
        if r = folder_request (CatBackup ''tok'') ''grp'' then a_folder
        else if r = image_request ''cat'' then a_image
        else if r = upload_url_request (CatBackup ''tok'') ''grp'' ''cat'' then a_write
        else if r = put_request ''https://uploader.example/slot'' [1, 2, 3] then a_put
        else if r = info_request (CatBackup ''tok'') ''grp'' ''cat'' then a_info
        else Fails ''no route''),
      open_w = (\<lambda>f. a_open),
      now_iso = (\<lambda>n. if n = 0 then ''2024-05-01T10:00:00'' else ''2024-05-01T10:00:01'')\<rparr>"

definition world0 :: world where
  "world0 = \<lparr>trace = [], files = Map.empty, ticks = 0, stdin = []\<rparr>"

definition write_target :: http_outcome where
  "write_target =
     respond 200 [] (Some (JObj [(''href'', JStr ''https://uploader.example/slot''),
                                  (''method'', JStr ''PUT'')]))"

definition stored_as :: "int \<Rightarrow> http_outcome" where
  "stored_as n =
     respond 200 [] (Some (JObj [(''path'', JStr ''disk:/grp/cat.jpg''), (''size'', JInt n)]))"

definition env_honest :: env where
  "env_honest =
     scripted (respond 201 [] None) (respond 200 [1, 2, 3] None) write_target
       (respond 201 [] None) (stored_as 3) None"

definition env_misreport :: env where
  "env_misreport =
     scripted (respond 201 [] None) (respond 200 [1, 2, 3] None) write_target
       (respond 201 [] None) (stored_as 5) None"

definition env_redirect :: env where
  "env_redirect =
     scripted (respond 201 [] None) (respond 300 [1, 2, 3] None) write_target
       (respond 201 [] None) (stored_as 3) None"

definition env_null_body :: env where
  "env_null_body =
     scripted (respond 201 [] None) (respond 200 [1, 2, 3] None) (respond 200 [] (Some JNull))
       (respond 201 [] None) (stored_as 3) None"

definition env_readonly :: env where
  "env_readonly =
     scripted (respond 201 [] None) (respond 200 [1, 2, 3] None) write_target
       (respond 201 [] None) (stored_as 3) (Some ''Permission denied'')"

definition env_empty_image :: env where
  "env_empty_image =
     scripted (respond 409 [] None) (respond 200 [] None) write_target
       (respond 201 [] None) (stored_as 3) None"

definition env_down :: env where
  "env_down =
     scripted (Fails ''unreachable'') (Fails ''unreachable'') (Fails ''unreachable'')
       (Fails ''unreachable'') (Fails ''unreachable'') None"

definition env_no_image :: env where
  "env_no_image =
     scripted (respond 201 [] None) (respond 404 [] None) write_target
       (respond 201 [] None) (stored_as 3) None"

definition env_put_rejected :: env where
  "env_put_rejected =
     scripted (respond 201 [] None) (respond 200 [1, 2, 3] None) write_target
       (respond 507 [] None) (stored_as 3) None"

definition world_blank_caption :: world where
  "world_blank_caption =
     \<lparr>trace = [], files = [''backup_info.json'' \<mapsto> JStr ''old''], ticks = 0,
      stdin = [''   '', ''tok'', ''grp'']\<rparr>"


section \<open>What each operation does\<close>

text \<open>
  Each operation is characterised by what it returns and by what it adds to the world;
  the characterisations are then composed along \<open>backup_cats\<close>.
\<close>

lemma effects_append [simp]: "effects (xs @ ys) = effects xs @ effects ys"
  by (simp add: effects_def)

lemma effects_Nil [simp]: "effects [] = []"
  by (simp add: effects_def)

lemma effects_Cons [simp]: "effects (e # es) = (if is_effect e then e # effects es else effects es)"
  by (simp add: effects_def)

lemma effects_put_effects [simp]:
  "effects (put_effects E self f n c upload_url) = put_effects E self f n c upload_url"
  by (simp add: put_effects_def split: json.splits)

lemma effects_upload_effects [simp]:
  "effects (upload_effects E self f n c) = upload_effects E self f n c"
  by (simp add: upload_effects_def split: option.splits)

lemma py_get_Inr: "py_get d k dflt = Inr v \<longleftrightarrow>
    (\<exists>m. d = JObj m \<and> v = (case map_of m k of None \<Rightarrow> dflt | Some x \<Rightarrow> x))"
  by (cases d) auto

lemma py_get_Inl: "py_get d k dflt = Inl x \<longleftrightarrow> (\<forall>m. d \<noteq> JObj m) \<and> x = AttributeError"
  by (cases d) auto

lemma create_folder_spec:
  assumes "create_folder E self g w = (ok, w1)"
  shows "ok = folder_created E self g"
    and "files w1 = files w" and "ticks w1 = ticks w" and "stdin w1 = stdin w"
    and "\<exists>m. trace w1 = trace w @ [Net (folder_request self g), Print m]"
  using assms
  by (auto simp add: create_folder_def requests_put_def send_def print_def emit_def
        folder_created_def folder_request_def split: http_outcome.splits if_splits)

lemma get_cat_image_spec:
  assumes "get_cat_image E text w = (img, w1)"
  shows "img = fetched E text"
    and "files w1 = files w" and "ticks w1 = ticks w" and "stdin w1 = stdin w"
    and "\<exists>ps. trace w1 = trace w @ Net (image_request text) # ps \<and> effects ps = []"
  using assms
  by (auto simp add: get_cat_image_def requests_get_def send_def print_def emit_def
        raise_for_status_def fetched_def image_request_def split: http_outcome.splits if_splits)

lemma upload_file_info_spec:
  assumes "upload_file_info E self f n put_response w = (res, w1)"
  shows "files w1 = files w" and "stdin w1 = stdin w"
    and "\<exists>ps. trace w1 = trace w @ Net (info_request self f n) # ps \<and> effects ps = []"
    and "\<not> info_answered E self f n \<Longrightarrow> res = Inr None"
    and "res = Inr (Some info) \<Longrightarrow>
           \<exists>r m. http E (info_request self f n) = Responds r \<and> status_code r = 200 \<and>
             json_body r = Some (JObj m) \<and>
             info = file_entry n m (now_iso E (ticks w)) \<and> ticks w1 = Suc (ticks w)"
    and "\<lbrakk>http E (info_request self f n) = Responds r; status_code r = 200;
          json_body r = Some (JObj m)\<rbrakk> \<Longrightarrow> res = Inr (Some (file_entry n m (now_iso E (ticks w))))"
  using assms
  unfolding upload_file_info_def requests_get_def send_def response_json_def datetime_now_def
    print_def emit_def info_request_def info_answered_def file_entry_def
  by (auto simp add: py_get_Inr py_get_Inl split: http_outcome.splits if_splits option.splits sum.splits)

lemma upload_file_accepted:
  assumes "put_accepted E upload_url c"
  shows "\<exists>u r. upload_url = JStr u \<and>
           upload_file E self f n c upload_url w =
             upload_file_info E self f n r (emit (Net (put_request u c)) w)"
  using assms
  unfolding upload_file_def put_accepted_def requests_put_def send_def put_request_def
  by (auto split: json.splits http_outcome.splits)

lemma upload_file_rejected:
  assumes "\<not> put_accepted E upload_url c" and "upload_file E self f n c upload_url w = (res, w1)"
  shows "res = Inr None" and "files w1 = files w" and "stdin w1 = stdin w"
    and "\<exists>ps. trace w1 = trace w @ put_effects E self f n c upload_url @ ps \<and> effects ps = []"
  using assms
  unfolding upload_file_def put_accepted_def requests_put_def send_def put_request_def print_def
    emit_def put_effects_def
  by (auto split: json.splits http_outcome.splits)

lemma upload_file_spec:
  assumes "upload_file E self f n c upload_url w = (res, w1)"
  shows "files w1 = files w" and "stdin w1 = stdin w"
    and "\<exists>evs. trace w1 = trace w @ evs \<and> effects evs = put_effects E self f n c upload_url"
    and "\<not> (put_accepted E upload_url c \<and> info_answered E self f n) \<Longrightarrow> res = Inr None"
    and "res = Inr (Some info) \<Longrightarrow>
           put_accepted E upload_url c \<and>
           (\<exists>r m. http E (info_request self f n) = Responds r \<and> status_code r = 200 \<and>
             json_body r = Some (JObj m) \<and>
             info = file_entry n m (now_iso E (ticks w)) \<and> ticks w1 = Suc (ticks w))"
    and "\<lbrakk>put_accepted E upload_url c; http E (info_request self f n) = Responds r;
          status_code r = 200; json_body r = Some (JObj m)\<rbrakk>
         \<Longrightarrow> res = Inr (Some (file_entry n m (now_iso E (ticks w))))"
proof -
  have "files w1 = files w \<and> stdin w1 = stdin w
      \<and> (\<exists>evs. trace w1 = trace w @ evs \<and> effects evs = put_effects E self f n c upload_url)
      \<and> (\<not> (put_accepted E upload_url c \<and> info_answered E self f n) \<longrightarrow> res = Inr None)
      \<and> (res = Inr (Some info) \<longrightarrow>
           put_accepted E upload_url c \<and>
           (\<exists>r m. http E (info_request self f n) = Responds r \<and> status_code r = 200 \<and>
             json_body r = Some (JObj m) \<and>
             info = file_entry n m (now_iso E (ticks w)) \<and> ticks w1 = Suc (ticks w)))
      \<and> (put_accepted E upload_url c \<and> http E (info_request self f n) = Responds r \<and>
          status_code r = 200 \<and> json_body r = Some (JObj m)
           \<longrightarrow> res = Inr (Some (file_entry n m (now_iso E (ticks w)))))"
  proof (cases "put_accepted E upload_url c")
    case True
    from upload_file_accepted [OF True, of self f n w] assms
    obtain u r0 where u: "upload_url = JStr u"
      and run: "upload_file_info E self f n r0 (emit (Net (put_request u c)) w) = (res, w1)"
      by auto
    note spec = upload_file_info_spec [OF run]
    from spec(3) obtain ps where
      ps: "trace w1 = trace w @ Net (put_request u c) # Net (info_request self f n) # ps"
          "effects ps = []"
      by (auto simp add: emit_def)
    have "effects (Net (put_request u c) # Net (info_request self f n) # ps)
            = put_effects E self f n c upload_url"
      using True u ps(2) by (simp add: put_effects_def)
    with ps(1) have tr: "\<exists>evs. trace w1 = trace w @ evs \<and> effects evs = put_effects E self f n c upload_url"
      by blast
    show ?thesis
      using True spec(1,2,4) spec(5) [of info] spec(6) [of r m] tr
      by (auto simp add: emit_def)
  next
    case False
    from upload_file_rejected [OF False assms] show ?thesis
      using False by auto
  qed
  then show "files w1 = files w" and "stdin w1 = stdin w"
    and "\<exists>evs. trace w1 = trace w @ evs \<and> effects evs = put_effects E self f n c upload_url"
    and "\<not> (put_accepted E upload_url c \<and> info_answered E self f n) \<Longrightarrow> res = Inr None"
    and "res = Inr (Some info) \<Longrightarrow>
           put_accepted E upload_url c \<and>
           (\<exists>r m. http E (info_request self f n) = Responds r \<and> status_code r = 200 \<and>
             json_body r = Some (JObj m) \<and>
             info = file_entry n m (now_iso E (ticks w)) \<and> ticks w1 = Suc (ticks w))"
    and "\<lbrakk>put_accepted E upload_url c; http E (info_request self f n) = Responds r;
          status_code r = 200; json_body r = Some (JObj m)\<rbrakk>
         \<Longrightarrow> res = Inr (Some (file_entry n m (now_iso E (ticks w))))"
    by blast+
qed

lemma map_of_Some_in_keys: "map_of d k = Some v \<Longrightarrow> k \<in> fst ` set d"
  by (induction d) (auto split: if_splits)

lemma map_of_None_notin_keys: "map_of d k = None \<Longrightarrow> k \<notin> fst ` set d"
  by (induction d) (auto split: if_splits)

lemma href_raises:
  assumes "href_lookup_raises d"
  shows "href_of d = None"
    and "py_in ''href'' d = Inl TypeError
         \<or> (py_in ''href'' d = Inr True \<and> py_getitem d ''href'' = Inl TypeError)"
  using assms
  by (cases d; auto simp add: href_lookup_raises_def href_of_def map_of_Some_in_keys
        map_of_None_notin_keys split: bool.splits option.splits sum.splits if_splits)+

lemma href_absent:
  assumes "\<not> href_lookup_raises d" and "href_of d = None"
  shows "py_in ''href'' d = Inr False"
  using assms
  by (cases d; auto simp add: href_lookup_raises_def href_of_def map_of_Some_in_keys
        map_of_None_notin_keys split: bool.splits option.splits sum.splits if_splits)

lemma href_present:
  assumes "href_of d = Some u"
  shows "py_in ''href'' d = Inr True" and "py_getitem d ''href'' = Inr u"
    and "\<not> href_lookup_raises d"
  using assms
  by (cases d; auto simp add: href_lookup_raises_def href_of_def map_of_Some_in_keys
        split: bool.splits option.splits sum.splits if_splits)+

lemma write_url_href_of:
  "http E (upload_url_request self f n) = Responds r \<Longrightarrow> json_body r = Some d
     \<Longrightarrow> write_url E self f n = href_of d"
  by (simp add: write_url_def href_of_def split: json.splits)

lemma upload_to_yandex_spec_aux:
  assumes run: "upload_to_yandex E self f n c w = (res, w1)"
  shows "files w1 = files w \<and> stdin w1 = stdin w
      \<and> (\<exists>evs. trace w1 = trace w @ evs \<and> effects evs = upload_effects E self f n c)
      \<and> (\<not> upload_steps_ok E self f n c \<and> \<not> write_url_body_raises E self f n \<longrightarrow> res = Inr None)
      \<and> (write_url_body_raises E self f n \<longrightarrow> res = Inl TypeError)
      \<and> (\<forall>info. res = Inr (Some info) \<longrightarrow>
           (\<exists>m. metadata E self f n c = Some m \<and>
             info = file_entry n m (now_iso E (ticks w)) \<and> ticks w1 = Suc (ticks w)))
      \<and> (\<forall>m. metadata E self f n c = Some m \<longrightarrow>
           res = Inr (Some (file_entry n m (now_iso E (ticks w)))))"
proof (cases "http E (upload_url_request self f n)")
  case (Fails msg)
  then show ?thesis
    using run
    by (auto simp add: upload_to_yandex_def requests_get_def send_def print_def emit_def
          upload_url_request_def upload_effects_def write_url_def upload_steps_ok_def
          write_url_body_raises_def metadata_def)
next
  case (Responds r)
  show ?thesis
  proof (cases "json_body r")
    case None
    with Responds show ?thesis
      using run
      by (auto simp add: upload_to_yandex_def requests_get_def send_def print_def emit_def
            upload_url_request_def upload_effects_def write_url_def upload_steps_ok_def
            write_url_body_raises_def metadata_def response_json_def)
  next
    case (Some d)
    note wu = write_url_href_of [OF Responds Some]
    have start: "requests_get E (yandex_base_url self @ ''/upload?path='' @ f @ ''/'' @ n
                    @ ''.jpg&overwrite=true'') (headers self) None w
                 = (Inr r, emit (Net (upload_url_request self f n)) w)"
      using Responds by (simp add: requests_get_def send_def upload_url_request_def)
    have raises_eq: "write_url_body_raises E self f n = href_lookup_raises d"
      using Responds Some by (simp add: write_url_body_raises_def)
    show ?thesis
    proof (cases "href_lookup_raises d")
      case True
      from href_raises [OF True] run start Some
      have "res = Inl TypeError" and "w1 = emit (Net (upload_url_request self f n)) w"
        by (auto simp add: upload_to_yandex_def response_json_def)
      then show ?thesis
        using raises_eq True wu href_raises(1) [OF True]
        by (auto simp add: emit_def upload_effects_def metadata_def upload_steps_ok_def)
    next
      case False
      show ?thesis
      proof (cases "href_of d")
        case None
        from href_absent [OF False None] run start Some
        have "res = Inr None"
          and "w1 = print (MsgUploadUrlError d) (emit (Net (upload_url_request self f n)) w)"
          by (auto simp add: upload_to_yandex_def response_json_def)
        then show ?thesis
          using raises_eq False wu None
          by (auto simp add: emit_def print_def upload_effects_def metadata_def upload_steps_ok_def)
      next
        case (Some u)
        from href_present [OF Some] run start \<open>json_body r = Some d\<close>
        have upl: "upload_file E self f n c u (emit (Net (upload_url_request self f n)) w) = (res, w1)"
          by (auto simp add: upload_to_yandex_def response_json_def)
        note spec = upload_file_spec [OF upl]
        from spec(3) obtain evs where
          evs: "trace w1 = trace w @ Net (upload_url_request self f n) # evs"
               "effects evs = put_effects E self f n c u"
          by (auto simp add: emit_def)
        have "effects (Net (upload_url_request self f n) # evs) = upload_effects E self f n c"
          using evs(2) wu Some by (simp add: upload_effects_def)
        with evs(1) have tr: "\<exists>evs. trace w1 = trace w @ evs \<and> effects evs = upload_effects E self f n c"
          by blast
        have ok: "upload_steps_ok E self f n c = (put_accepted E u c \<and> info_answered E self f n)"
          using wu Some by (simp add: upload_steps_ok_def)
        have md: "metadata E self f n c =
                    (if put_accepted E u c \<and> info_answered E self f n then
                       (case http E (info_request self f n) of
                          Responds r \<Rightarrow> (case json_body r of Some (JObj m) \<Rightarrow> Some m | _ \<Rightarrow> None)
                        | Fails m \<Rightarrow> None)
                     else None)"
          by (simp add: metadata_def ok)
        have frame: "files w1 = files w \<and> stdin w1 = stdin w"
          using spec(1,2) by (simp add: emit_def)
        have none: "\<not> upload_steps_ok E self f n c \<and> \<not> write_url_body_raises E self f n
                      \<longrightarrow> res = Inr None"
          using spec(4) ok by simp
        have raise: "write_url_body_raises E self f n \<longrightarrow> res = Inl TypeError"
          using raises_eq False by simp
        have only: "\<forall>info. res = Inr (Some info) \<longrightarrow>
           (\<exists>m. metadata E self f n c = Some m \<and>
             info = file_entry n m (now_iso E (ticks w)) \<and> ticks w1 = Suc (ticks w))"
        proof (intro allI impI)
          fix info assume "res = Inr (Some info)"
          from spec(5) [OF this] obtain r3 m where
            a: "put_accepted E u c" "http E (info_request self f n) = Responds r3"
               "status_code r3 = 200" "json_body r3 = Some (JObj m)"
               "info = file_entry n m (now_iso E (ticks w))" "ticks w1 = Suc (ticks w)"
            by (auto simp add: emit_def)
          from a(1-4) have "metadata E self f n c = Some m"
            by (simp add: md info_answered_def)
          with a(5,6) show "\<exists>m. metadata E self f n c = Some m \<and>
             info = file_entry n m (now_iso E (ticks w)) \<and> ticks w1 = Suc (ticks w)"
            by blast
        qed
        have some: "\<forall>m. metadata E self f n c = Some m \<longrightarrow>
           res = Inr (Some (file_entry n m (now_iso E (ticks w))))"
        proof (intro allI impI)
          fix m assume m: "metadata E self f n c = Some m"
          then have pa: "put_accepted E u c" and ia: "info_answered E self f n"
            by (auto simp add: md split: if_splits)
          from ia obtain r3 where r3: "http E (info_request self f n) = Responds r3"
            "status_code r3 = 200"
            by (auto simp add: info_answered_def split: http_outcome.splits)
          from m pa ia r3 have "json_body r3 = Some (JObj m)"
            by (auto simp add: md split: option.splits json.splits)
          from spec(6) [OF pa r3 this] show "res = Inr (Some (file_entry n m (now_iso E (ticks w))))"
            by (simp add: emit_def)
        qed
        from frame tr none raise only some show ?thesis by blast
      qed
    qed
  qed
qed

lemma upload_to_yandex_spec:
  assumes run: "upload_to_yandex E self f n c w = (res, w1)"
  shows "files w1 = files w" and "stdin w1 = stdin w"
    and "\<exists>evs. trace w1 = trace w @ evs \<and> effects evs = upload_effects E self f n c"
    and "\<not> upload_steps_ok E self f n c \<Longrightarrow> \<not> write_url_body_raises E self f n \<Longrightarrow> res = Inr None"
    and "write_url_body_raises E self f n \<Longrightarrow> res = Inl TypeError"
    and "res = Inr (Some info) \<Longrightarrow>
           \<exists>m. metadata E self f n c = Some m \<and>
             info = file_entry n m (now_iso E (ticks w)) \<and> ticks w1 = Suc (ticks w)"
    and "metadata E self f n c = Some m \<Longrightarrow>
           res = Inr (Some (file_entry n m (now_iso E (ticks w))))"
  using upload_to_yandex_spec_aux [OF run] by blast+

lemma save_to_json_spec:
  "stdin (save_to_json E data filename w) = stdin w"
  "\<exists>m. trace (save_to_json E data filename w) = trace w @ [OpenW filename, Print m]"
  "files (save_to_json E data filename w) =
     (if open_w E filename = None then (files w)(filename \<mapsto> data) else files w)"
  by (auto simp add: save_to_json_def print_def emit_def split: option.splits)

lemma backup_cats_spec:
  assumes run: "backup_cats E self text g w = (res, w')"
  shows "stdin w' = stdin w
       \<and> (\<exists>evs. trace w' = trace w @ evs \<and> effects evs = run_effects E self text g)
       \<and> files w' =
           (case written_record E self text g (ticks w) of
              None \<Rightarrow> files w
            | Some doc \<Rightarrow>
                if open_w E ''backup_info.json'' = None
                then (files w)(''backup_info.json'' \<mapsto> doc) else files w)"
proof -
  obtain ok w1 where cf: "create_folder E self g (print (MsgBackupStart text) w) = (ok, w1)"
    by (cases "create_folder E self g (print (MsgBackupStart text) w)")
  note s1 = create_folder_spec [OF cf]
  from s1(5) obtain m1 where
    t1: "trace w1 = trace w @ [Print (MsgBackupStart text), Net (folder_request self g), Print m1]"
    by (auto simp add: print_def emit_def)
  have f1: "files w1 = files w" "stdin w1 = stdin w" "ticks w1 = ticks w"
    using s1(2-4) by (simp_all add: print_def emit_def)
  show ?thesis
  proof (cases ok)
    case False
    with run cf have "w' = w1" by (simp add: backup_cats_def)
    with False s1(1) t1 f1 show ?thesis
      by (auto simp add: run_effects_def written_record_def)
  next
    case True
    then have fc: "folder_created E self g" using s1(1) by simp
    obtain img w2 where gi: "get_cat_image E text (print MsgFetchingImage w1) = (img, w2)"
      by (cases "get_cat_image E text (print MsgFetchingImage w1)")
    note s2 = get_cat_image_spec [OF gi]
    from s2(5) t1 obtain ps2 where
      t2: "trace w2 = trace w @ [Print (MsgBackupStart text), Net (folder_request self g), Print m1,
             Print MsgFetchingImage, Net (image_request text)] @ ps2" "effects ps2 = []"
      by (auto simp add: print_def emit_def)
    have f2: "files w2 = files w" "stdin w2 = stdin w" "ticks w2 = ticks w"
      using s2(2-4) f1 by (simp_all add: print_def emit_def)
    show ?thesis
    proof (cases "img = None \<or> img = Some []")
      case True
      with run cf gi \<open>ok\<close> have "w' = print MsgImageFailed w2"
        by (auto simp add: backup_cats_def)
      with True s2(1) fc t2 f2 show ?thesis
        by (auto simp add: run_effects_def written_record_def print_def emit_def)
    next
      case False
      then obtain c where c: "img = Some c" "c \<noteq> []" by auto
      obtain r3 w3 where up: "upload_to_yandex E self g text c (print MsgUploading w2) = (r3, w3)"
        by (cases "upload_to_yandex E self g text c (print MsgUploading w2)")
      note s3 = upload_to_yandex_spec [OF up]
      from s3(3) t2 obtain evs3 where
        t3: "trace w3 = trace w @ [Print (MsgBackupStart text), Net (folder_request self g), Print m1,
               Print MsgFetchingImage, Net (image_request text)] @ ps2 @ [Print MsgUploading] @ evs3"
            "effects evs3 = upload_effects E self g text c"
        by (auto simp add: print_def emit_def)
      have f3: "files w3 = files w" "stdin w3 = stdin w"
        using s3(1,2) f2 by (simp_all add: print_def emit_def)
      have fe: "fetched E text = Some c" using s2(1) c by simp
      show ?thesis
      proof (cases "metadata E self g text c")
        case None
        with s3(6) have no: "\<And>info. r3 \<noteq> Inr (Some info)" by fastforce
        have "w' = w3 \<or> w' = print MsgBackupErrors w3"
        proof (cases r3)
          case (Inl x)
          with run cf gi up \<open>ok\<close> c show ?thesis by (simp add: backup_cats_def)
        next
          case (Inr o3)
          with no have "o3 = None" by (cases o3) auto
          with Inr run cf gi up \<open>ok\<close> c show ?thesis by (simp add: backup_cats_def)
        qed
        with None fc fe c t2(2) t3 f3 show ?thesis
          by (auto simp add: run_effects_def written_record_def print_def emit_def)
      next
        case (Some m)
        from s3(7) [OF Some] have r3: "r3 = Inr (Some (file_entry text m (now_iso E (ticks w))))"
          using f2 by (simp add: print_def emit_def)
        from s3(6) [OF this] have k3: "ticks w3 = Suc (ticks w)"
          using f2 by (auto simp add: print_def emit_def)
        let ?doc = "backup_document (now_iso E (Suc (ticks w))) text g
                      (file_entry text m (now_iso E (ticks w)))"
        let ?w4 = "w3\<lparr>ticks := Suc (ticks w3)\<rparr>"
        have "w' = print (MsgUploadedSize (case map_of m ''size'' of None \<Rightarrow> JInt 0 | Some v \<Rightarrow> v))
                     (print MsgBackupSuccess (save_to_json E ?doc ''backup_info.json'' ?w4))"
          using run cf gi up \<open>ok\<close> c r3 k3
          by (simp add: backup_cats_def file_entry_def datetime_now_def backup_document_def Let_def)
        moreover from save_to_json_spec(2) [of E ?doc "''backup_info.json''" ?w4]
        obtain m4 where "trace (save_to_json E ?doc ''backup_info.json'' ?w4)
                           = trace w3 @ [OpenW ''backup_info.json'', Print m4]"
          by auto
        ultimately show ?thesis
          using Some fc fe c t2(2) t3 f3 save_to_json_spec(1,3) [of E ?doc "''backup_info.json''" ?w4]
          by (auto simp add: run_effects_def written_record_def print_def emit_def)
      qed
    qed
  qed
qed

lemma run_trace_eq: "run_trace E self text g w = run_effects E self text g"
proof -
  obtain res w' where run: "backup_cats E self text g w = (res, w')"
    by (cases "backup_cats E self text g w")
  from backup_cats_spec [OF run] obtain evs where
    "trace w' = trace w @ evs" "effects evs = run_effects E self text g"
    by blast
  with run show ?thesis by (simp add: run_trace_def new_events_def)
qed

lemma run_files:
  "files (snd (backup_cats E self text g w)) =
     (case written_record E self text g (ticks w) of
        None \<Rightarrow> files w
      | Some doc \<Rightarrow>
          if open_w E ''backup_info.json'' = None
          then (files w)(''backup_info.json'' \<mapsto> doc) else files w)"
proof -
  obtain res w' where run: "backup_cats E self text g w = (res, w')"
    by (cases "backup_cats E self text g w")
  from backup_cats_spec [OF run] run show ?thesis by simp
qed

lemma create_folder_result: "fst (create_folder E self g w) = folder_created E self g"
  using create_folder_spec(1) [of E self g w] by (cases "create_folder E self g w") simp

lemma get_cat_image_result: "fst (get_cat_image E text w) = fetched E text"
  using get_cat_image_spec(1) [of E "text" w] by (cases "get_cat_image E text w") simp

lemma upload_steps_ok_cases:
  assumes "upload_steps_ok E self f n c"
  obtains u where "write_url E self f n = Some (JStr u)" and "put_accepted E (JStr u) c"
    and "info_answered E self f n"
  using assms
  by (auto simp add: upload_steps_ok_def put_accepted_def split: option.splits json.splits)

lemma metadata_steps_ok: "metadata E self f n c = Some m \<Longrightarrow> upload_steps_ok E self f n c"
  by (simp add: metadata_def split: if_splits)

lemma upload_effects_full:
  assumes "upload_steps_ok E self f n c"
  obtains u where "write_url E self f n = Some (JStr u)"
    and "upload_effects E self f n c =
           [Net (upload_url_request self f n), Net (put_request u c), Net (info_request self f n)]"
proof -
  from assms obtain u where u: "write_url E self f n = Some (JStr u)" "put_accepted E (JStr u) c"
    by (rule upload_steps_ok_cases)
  then have "upload_effects E self f n c =
           [Net (upload_url_request self f n), Net (put_request u c), Net (info_request self f n)]"
    by (simp add: upload_effects_def put_effects_def)
  with u(1) that show ?thesis by blast
qed

lemma upload_effects_prefix:
  "prefix (upload_effects E self f n c)
     [Net (upload_url_request self f n),
      Net (put_request (case write_url E self f n of Some (JStr s) \<Rightarrow> s | _ \<Rightarrow> []) c),
      Net (info_request self f n)]"
  by (simp add: upload_effects_def put_effects_def split: option.splits json.splits)

lemma OpenW_notin_upload_effects: "OpenW x \<notin> set (upload_effects E self f n c)"
  by (auto simp add: upload_effects_def put_effects_def split: option.splits json.splits if_splits)

lemma run_effects_plan:
  "prefix (run_effects E self text g)
      [Net (folder_request self g), Net (image_request text), Net (upload_url_request self g text),
       Net (put_request (case write_url E self g text of Some (JStr s) \<Rightarrow> s | _ \<Rightarrow> [])
              (case fetched E text of Some b \<Rightarrow> b | None \<Rightarrow> [])),
       Net (info_request self g text), OpenW ''backup_info.json'']"
proof (cases "folder_created E self g \<and> (\<exists>c. fetched E text = Some c \<and> c \<noteq> [])")
  case False
  then show ?thesis
    by (auto simp add: run_effects_def split: option.splits)
next
  case True
  then obtain c where c: "folder_created E self g" "fetched E text = Some c" "c \<noteq> []" by blast
  let ?u = "case write_url E self g text of Some (JStr s) \<Rightarrow> s | _ \<Rightarrow> []"
  show ?thesis
  proof (cases "metadata E self g text c")
    case None
    have "prefix (upload_effects E self g text c)
          ([Net (upload_url_request self g text), Net (put_request ?u c), Net (info_request self g text)]
            @ [OpenW ''backup_info.json''])"
      using upload_effects_prefix [of E self g "text" c] by (rule prefix_prefix)
    with c None show ?thesis
      by (simp add: run_effects_def)
  next
    case (Some m)
    from metadata_steps_ok [OF Some] obtain u where
      "write_url E self g text = Some (JStr u)"
      "upload_effects E self g text c =
           [Net (upload_url_request self g text), Net (put_request u c), Net (info_request self g text)]"
      by (rule upload_effects_full)
    with c Some show ?thesis
      by (simp add: run_effects_def)
  qed
qed

lemma OpenW_in_run_effects:
  assumes "OpenW x \<in> set (run_effects E self text g)"
  shows "\<exists>c m. folder_created E self g \<and> fetched E text = Some c \<and> c \<noteq> [] \<and>
           metadata E self g text c = Some m"
proof (cases "fetched E text")
  case None
  with assms show ?thesis
    by (auto simp add: run_effects_def split: if_splits)
next
  case (Some c)
  show ?thesis
  proof (cases "metadata E self g text c")
    case None
    with assms Some OpenW_notin_upload_effects [of x E self g "text" c] show ?thesis
      by (auto simp add: run_effects_def split: if_splits)
  next
    case (Some m)
    with assms \<open>fetched E text = Some c\<close> show ?thesis
      by (auto simp add: run_effects_def split: if_splits)
  qed
qed

section \<open>The claims\<close>

lemma scripted_http:
  "http (scripted a b c d e f) (folder_request (CatBackup ''tok'') ''grp'') = a"
  "http (scripted a b c d e f) (image_request ''cat'') = b"
  "http (scripted a b c d e f) (upload_url_request (CatBackup ''tok'') ''grp'' ''cat'') = c"
  "http (scripted a b c d e f) (put_request ''https://uploader.example/slot'' [1, 2, 3]) = d"
  "http (scripted a b c d e f) (info_request (CatBackup ''tok'') ''grp'' ''cat'') = e"
  "open_w (scripted a b c d e f) x = f"
  "now_iso (scripted a b c d e f) 0 = ''2024-05-01T10:00:00''"
  "now_iso (scripted a b c d e f) (Suc n) = ''2024-05-01T10:00:01''"
  by (simp_all add: scripted_def folder_request_def image_request_def upload_url_request_def
        put_request_def info_request_def CatBackup_def)

lemmas env_defs = env_honest_def env_misreport_def env_redirect_def env_null_body_def
  env_readonly_def env_empty_image_def env_down_def env_no_image_def env_put_rejected_def

lemmas step_defs = folder_created_def fetched_def metadata_def upload_steps_ok_def
  write_url_def put_accepted_def info_answered_def write_url_body_raises_def href_lookup_raises_def
  respond_def write_target_def stored_as_def

lemmas code_defs = backup_cats_def create_folder_def get_cat_image_def upload_to_yandex_def
  upload_file_def upload_file_info_def save_to_json_def requests_get_def requests_put_def send_def
  raise_for_status_def response_json_def datetime_now_def print_def emit_def

lemmas request_defs = folder_request_def image_request_def upload_url_request_def put_request_def
  info_request_def CatBackup_def

lemma opened_files_effects: "opened_files (effects es) = opened_files es"
  by (induction es rule: opened_files.induct) simp_all

lemma opened_files_append [simp]: "opened_files (xs @ ys) = opened_files xs @ opened_files ys"
  by (induction xs rule: opened_files.induct) simp_all

lemma opened_files_upload_effects [simp]: "opened_files (upload_effects E self f n c) = []"
  by (simp add: upload_effects_def put_effects_def split: option.splits json.splits)






text \<open>
  Claim C3. \<open>create_folder\<close> returns \<open>True\<close> exactly when the provider answers the folder
  request with status 201 or 409; every other status and every request exception gives
  \<open>False\<close>.
\<close>

theorem create_folder_success_iff:
  "fst (create_folder E self folder_name w) =
     (case http E (folder_request self folder_name) of
        Responds r \<Rightarrow> status_code r = 201 \<or> status_code r = 409
      | Fails m \<Rightarrow> False)"
  by (simp add: create_folder_def requests_put_def send_def folder_request_def
           split: http_outcome.splits)

text \<open>Status 201, status 409 and an unreachable provider.\<close>

theorem create_folder_success_iff_witness:
  "fst (create_folder env_honest (CatBackup ''tok'') ''grp'' world0)
   \<and> fst (create_folder env_empty_image (CatBackup ''tok'') ''grp'' world0)
   \<and> \<not> fst (create_folder env_down (CatBackup ''tok'') ''grp'' world0)"
  using create_folder_success_iff [of env_honest "CatBackup ''tok''" "''grp''" world0]
        create_folder_success_iff [of env_empty_image "CatBackup ''tok''" "''grp''" world0]
        create_folder_success_iff [of env_down "CatBackup ''tok''" "''grp''" world0]
  by (simp add: env_defs scripted_http respond_def)

text \<open>
  Claim C4, as amended. When the image request is answered with a 4xx or 5xx status, or
  raises a request exception, \<open>get_cat_image\<close> returns \<open>None\<close>, the run performs no effect
  after the image request (no upload, no file opened), and no file changes.
\<close>

theorem failed_fetch_halts_run:
  assumes "case http E (image_request text) of
             Responds r \<Rightarrow> 400 \<le> status_code r \<and> status_code r < 600
           | Fails m \<Rightarrow> True"
  shows "fst (get_cat_image E text w0) = None
       \<and> prefix (run_trace E self text g w) [Net (folder_request self g), Net (image_request text)]
       \<and> files (snd (backup_cats E self text g w)) = files w"
proof -
  from assms have "fetched E text = None"
    by (auto simp add: fetched_def split: http_outcome.splits)
  then show ?thesis
    by (simp add: get_cat_image_result run_trace_eq run_files run_effects_def written_record_def)
qed

text \<open>An image request answered 404.\<close>

theorem failed_fetch_halts_run_witness:
  "http env_no_image (image_request ''cat'')
     = Responds \<lparr>status_code = 404, content = [], json_body = None\<rparr>
   \<and> fst (get_cat_image env_no_image ''cat'' world0) = None
   \<and> prefix (run_trace env_no_image (CatBackup ''tok'') ''cat'' ''grp'' world0)
       [Net (folder_request (CatBackup ''tok'') ''grp''), Net (image_request ''cat'')]
   \<and> files (snd (backup_cats env_no_image (CatBackup ''tok'') ''cat'' ''grp'' world0)) = files world0"
  using failed_fetch_halts_run [of env_no_image "''cat''" world0 "CatBackup ''tok''" "''grp''" world0]
  by (simp add: env_defs scripted_http respond_def)

text \<open>
  Claim C4 as stated fails for a status that is neither 2xx nor an error class:
  \<^verbatim>\<open>raise_for_status\<close> lets a final answer with status 300 pass, its body is returned, the
  upload is requested and the record is written.
\<close>

theorem non_2xx_fetch_counterexample:
  "http env_redirect (image_request ''cat'')
     = Responds \<lparr>status_code = 300, content = [1, 2, 3], json_body = None\<rparr>
   \<and> fst (get_cat_image env_redirect ''cat'' world0) = Some [1, 2, 3]
   \<and> Net (upload_url_request (CatBackup ''tok'') ''grp'' ''cat'')
        \<in> set (run_trace env_redirect (CatBackup ''tok'') ''cat'' ''grp'' world0)
   \<and> files (snd (backup_cats env_redirect (CatBackup ''tok'') ''cat'' ''grp'' world0))
        ''backup_info.json'' \<noteq> None"
  by (simp add: env_defs step_defs scripted_http world0_def get_cat_image_result run_trace_eq
        run_files run_effects_def upload_effects_def put_effects_def written_record_def)





text \<open>
  Claim C6 does not hold of the code. All five requests succeed and opening
  \<^verbatim>\<open>backup_info.json\<close> fails: \<open>save_to_json\<close> catches the error and prints it, and
  \<open>backup_cats\<close> then prints the success report and the size, with no file written.
\<close>

theorem save_failure_reported_as_success:
  "backup_cats env_readonly (CatBackup ''tok'') ''cat'' ''grp'' world0 =
     (Inr (),
      \<lparr>trace =
         [Print (MsgBackupStart ''cat''),
          Net (folder_request (CatBackup ''tok'') ''grp''),
          Print (MsgFolderReady ''grp''),
          Print MsgFetchingImage,
          Net (image_request ''cat''),
          Print MsgUploading,
          Net (upload_url_request (CatBackup ''tok'') ''grp'' ''cat''),
          Net (put_request ''https://uploader.example/slot'' [1, 2, 3]),
          Net (info_request (CatBackup ''tok'') ''grp'' ''cat''),
          OpenW ''backup_info.json'',
          Print (MsgSaveException ''Permission denied''),
          Print MsgBackupSuccess,
          Print (MsgUploadedSize (JInt 3))],
       files = Map.empty, ticks = 2, stdin = []\<rparr>)"
  by (simp add: code_defs request_defs env_defs scripted_def respond_def write_target_def
        stored_as_def world0_def)



text \<open>
  Claim C8. When the image request is answered 2xx with an empty body, \<open>get_cat_image\<close>
  returns the empty bytes, and the run performs no effect after the image request and
  changes no file; after a successful folder creation the run is exactly: the two
  requests, the progress lines, and the line that the image could not be obtained.
\<close>

theorem empty_image_halts_run:
  assumes "http E (image_request text) = Responds r"
      and "200 \<le> status_code r" and "status_code r < 300" and "content r = []"
  shows "fst (get_cat_image E text w0) = Some []
       \<and> prefix (run_trace E self text g w) [Net (folder_request self g), Net (image_request text)]
       \<and> files (snd (backup_cats E self text g w)) = files w
       \<and> (fst (create_folder E self g w1) \<longrightarrow>
            backup_cats E self text g w =
              (Inr (), w\<lparr>trace := trace w @
                 [Print (MsgBackupStart text), Net (folder_request self g),
                  Print (MsgFolderReady g), Print MsgFetchingImage, Net (image_request text),
                  Print MsgImageFailed]\<rparr>))"
proof -
  from assms have fe: "fetched E text = Some []"
    by (simp add: fetched_def)
  have "backup_cats E self text g w =
              (Inr (), w\<lparr>trace := trace w @
                 [Print (MsgBackupStart text), Net (folder_request self g),
                  Print (MsgFolderReady g), Print MsgFetchingImage, Net (image_request text),
                  Print MsgImageFailed]\<rparr>)"
    if "fst (create_folder E self g w1)"
  proof -
    from that obtain r1 where "http E (folder_request self g) = Responds r1"
      "status_code r1 = 201 \<or> status_code r1 = 409"
      by (auto simp add: create_folder_result folder_created_def split: http_outcome.splits)
    with assms show ?thesis
      unfolding folder_request_def image_request_def
      by (auto simp add: backup_cats_def create_folder_def get_cat_image_def requests_get_def
            requests_put_def send_def raise_for_status_def print_def emit_def)
  qed
  with fe show ?thesis
    by (simp add: get_cat_image_result run_trace_eq run_files run_effects_def written_record_def)
qed

text \<open>An existing folder (409) and an image answered 200 with no bytes.\<close>

theorem empty_image_halts_run_witness:
  "http env_empty_image (image_request ''cat'')
     = Responds \<lparr>status_code = 200, content = [], json_body = None\<rparr>
   \<and> fst (create_folder env_empty_image (CatBackup ''tok'') ''grp'' world0)
   \<and> fst (get_cat_image env_empty_image ''cat'' world0) = Some []
   \<and> files (snd (backup_cats env_empty_image (CatBackup ''tok'') ''cat'' ''grp'' world0))
       = files world0
   \<and> backup_cats env_empty_image (CatBackup ''tok'') ''cat'' ''grp'' world0 =
       (Inr (), world0\<lparr>trace := trace world0 @
          [Print (MsgBackupStart ''cat''), Net (folder_request (CatBackup ''tok'') ''grp''),
           Print (MsgFolderReady ''grp''), Print MsgFetchingImage, Net (image_request ''cat''),
           Print MsgImageFailed]\<rparr>)"
proof -
  have img: "http env_empty_image (image_request ''cat'')
               = Responds \<lparr>status_code = 200, content = [], json_body = None\<rparr>"
    by (simp add: env_defs scripted_http respond_def)
  have folder: "fst (create_folder env_empty_image (CatBackup ''tok'') ''grp'' world0)"
    by (simp add: create_folder_result env_defs step_defs scripted_http)
  show ?thesis
    using empty_image_halts_run [OF img, of world0 "CatBackup ''tok''" "''grp''" world0 world0]
      img folder
    by simp
qed

text \<open>
  Claim C9. When one of the three lines read is empty after \<open>strip\<close>, \<open>main\<close> prints the
  banner, the three prompts and the error line, and returns: the trace gains no network
  call and no file opening, and the files are unchanged.
\<close>

theorem main_rejects_empty_field:
  assumes "stdin w = l1 # l2 # l3 # rest"
      and "strip l1 = [] \<or> strip l2 = [] \<or> strip l3 = []"
  shows "main E w =
           (Inr (), w\<lparr>trace := trace w @ [Print MsgBanner, Prompt PromptText, Prompt PromptToken,
                                          Prompt PromptGroup, Print MsgFieldsRequired],
                       stdin := rest\<rparr>)"
  using assms by (auto simp add: main_def input_def print_def emit_def)

text \<open>A caption of three spaces.\<close>

theorem main_rejects_empty_field_witness:
  "stdin world_blank_caption = [''   '', ''tok'', ''grp'']
   \<and> strip ''   '' = []
   \<and> main env_honest world_blank_caption =
     (Inr (), world_blank_caption
        \<lparr>trace := [Print MsgBanner, Prompt PromptText, Prompt PromptToken, Prompt PromptGroup,
                   Print MsgFieldsRequired],
         stdin := []\<rparr>)"
proof -
  have "strip ''   '' = []"
    by (simp add: strip_def py_isspace_def)
  then show ?thesis
    using main_rejects_empty_field [of world_blank_caption "''   ''" "''tok''" "''grp''" "[]"
            env_honest]
    by (simp add: world_blank_caption_def)
qed

text \<open>
  Claim C10. The only request for a write target asks for the path made of the folder
  name, a slash, the caption and \<^verbatim>\<open>.jpg\<close>; the bytes are sent to the address returned
  for it, and the metadata is asked for the same path. The \<^verbatim>\<open>file_name\<close> that
  \<open>upload_to_yandex\<close> returns, and that the written record holds, is the caption followed by
  \<^verbatim>\<open>.jpg\<close>.
\<close>

theorem remote_path_and_file_name:
  "prefix (run_trace E self text g w)
      [Net (folder_request self g),
       Net (image_request text),
       Net \<lparr>req_method = GET,
            req_url = yandex_base_url self @ ''/upload?path='' @ g @ ''/'' @ text
                        @ ''.jpg&overwrite=true'',
            req_headers = headers self, req_data = None, req_timeout = None\<rparr>,
       Net (put_request (case write_url E self g text of Some (JStr s) \<Rightarrow> s | _ \<Rightarrow> [])
              (case fetched E text of Some b \<Rightarrow> b | None \<Rightarrow> [])),
       Net \<lparr>req_method = GET,
            req_url = yandex_base_url self @ ''?path='' @ g @ ''/'' @ text @ ''.jpg'',
            req_headers = headers self, req_data = None, req_timeout = None\<rparr>,
       OpenW ''backup_info.json'']
   \<and> (fst (upload_to_yandex E self g text c w1) = Inr (Some info)
        \<longrightarrow> py_getitem info ''file_name'' = Inr (JStr (text @ ''.jpg'')))
   \<and> (OpenW ''backup_info.json'' \<in> set (run_trace E self text g w)
        \<and> open_w E ''backup_info.json'' = None \<longrightarrow>
        (\<exists>ts sz cr p.
           files (snd (backup_cats E self text g w)) ''backup_info.json'' =
             Some (JObj [(''backup_info'', JObj
               [(''timestamp'', JStr ts),
                (''text'', JStr text),
                (''group_name'', JStr g),
                (''files'', JArr [JObj
                   [(''file_name'', JStr (text @ ''.jpg'')),
                    (''size'', sz),
                    (''created'', JStr cr),
                    (''path'', p)]])])])))"
proof -
  have a: "prefix (run_trace E self text g w)
      [Net (folder_request self g),
       Net (image_request text),
       Net \<lparr>req_method = GET,
            req_url = yandex_base_url self @ ''/upload?path='' @ g @ ''/'' @ text
                        @ ''.jpg&overwrite=true'',
            req_headers = headers self, req_data = None, req_timeout = None\<rparr>,
       Net (put_request (case write_url E self g text of Some (JStr s) \<Rightarrow> s | _ \<Rightarrow> [])
              (case fetched E text of Some b \<Rightarrow> b | None \<Rightarrow> [])),
       Net \<lparr>req_method = GET,
            req_url = yandex_base_url self @ ''?path='' @ g @ ''/'' @ text @ ''.jpg'',
            req_headers = headers self, req_data = None, req_timeout = None\<rparr>,
       OpenW ''backup_info.json'']"
    using run_effects_plan [of E self "text" g]
    unfolding run_trace_eq upload_url_request_def info_request_def .
  have b: "fst (upload_to_yandex E self g text c w1) = Inr (Some info)
        \<longrightarrow> py_getitem info ''file_name'' = Inr (JStr (text @ ''.jpg''))"
  proof
    assume r: "fst (upload_to_yandex E self g text c w1) = Inr (Some info)"
    obtain res w2 where up: "upload_to_yandex E self g text c w1 = (res, w2)"
      by (cases "upload_to_yandex E self g text c w1")
    with r have "res = Inr (Some info)" by simp
    from upload_to_yandex_spec(6) [OF up this]
    show "py_getitem info ''file_name'' = Inr (JStr (text @ ''.jpg''))"
      by (auto simp add: file_entry_def)
  qed
  have c: "OpenW ''backup_info.json'' \<in> set (run_trace E self text g w)
        \<and> open_w E ''backup_info.json'' = None \<longrightarrow>
        (\<exists>ts sz cr p.
           files (snd (backup_cats E self text g w)) ''backup_info.json'' =
             Some (JObj [(''backup_info'', JObj
               [(''timestamp'', JStr ts),
                (''text'', JStr text),
                (''group_name'', JStr g),
                (''files'', JArr [JObj
                   [(''file_name'', JStr (text @ ''.jpg'')),
                    (''size'', sz),
                    (''created'', JStr cr),
                    (''path'', p)]])])]))"
  proof
    assume h: "OpenW ''backup_info.json'' \<in> set (run_trace E self text g w)
        \<and> open_w E ''backup_info.json'' = None"
    then have "OpenW ''backup_info.json'' \<in> set (run_effects E self text g)"
      by (simp add: run_trace_eq)
    from OpenW_in_run_effects [OF this] obtain b m where
      "folder_created E self g" "fetched E text = Some b" "b \<noteq> []"
      "metadata E self g text b = Some m"
      by blast
    with h have "files (snd (backup_cats E self text g w)) ''backup_info.json'' =
        Some (backup_document (now_iso E (Suc (ticks w))) text g
                (file_entry text m (now_iso E (ticks w))))"
      by (simp add: run_files written_record_def)
    then show "\<exists>ts sz cr p.
           files (snd (backup_cats E self text g w)) ''backup_info.json'' =
             Some (JObj [(''backup_info'', JObj
               [(''timestamp'', JStr ts),
                (''text'', JStr text),
                (''group_name'', JStr g),
                (''files'', JArr [JObj
                   [(''file_name'', JStr (text @ ''.jpg'')),
                    (''size'', sz),
                    (''created'', JStr cr),
                    (''path'', p)]])])])"
      by (auto simp add: backup_document_def file_entry_def)
  qed
  from a b c show ?thesis by blast
qed

text \<open>The run with the caption \<^verbatim>\<open>cat\<close> in the folder \<^verbatim>\<open>grp\<close>.\<close>

theorem remote_path_and_file_name_witness:
  "open_w env_honest ''backup_info.json'' = None
   \<and> run_trace env_honest (CatBackup ''tok'') ''cat'' ''grp'' world0 =
      [Net (folder_request (CatBackup ''tok'') ''grp''),
       Net (image_request ''cat''),
       Net \<lparr>req_method = GET,
            req_url = ''https://cloud-api.yandex.net/v1/disk/resources/upload?path=grp/cat.jpg&overwrite=true'',
            req_headers = [(''Authorization'', ''OAuth tok''), (''Content-Type'', ''application/json'')],
            req_data = None, req_timeout = None\<rparr>,
       Net (put_request ''https://uploader.example/slot'' [1, 2, 3]),
       Net \<lparr>req_method = GET,
            req_url = ''https://cloud-api.yandex.net/v1/disk/resources?path=grp/cat.jpg'',
            req_headers = [(''Authorization'', ''OAuth tok''), (''Content-Type'', ''application/json'')],
            req_data = None, req_timeout = None\<rparr>,
       OpenW ''backup_info.json'']
   \<and> fst (upload_to_yandex env_honest (CatBackup ''tok'') ''grp'' ''cat'' [1, 2, 3] world0)
       = Inr (Some (JObj [(''file_name'', JStr ''cat.jpg''), (''size'', JInt 3),
                          (''created'', JStr ''2024-05-01T10:00:00''),
                          (''path'', JStr ''disk:/grp/cat.jpg'')]))
   \<and> py_getitem (JObj [(''file_name'', JStr ''cat.jpg''), (''size'', JInt 3),
                         (''created'', JStr ''2024-05-01T10:00:00''),
                         (''path'', JStr ''disk:/grp/cat.jpg'')]) ''file_name''
       = Inr (JStr ''cat.jpg'')
   \<and> files (snd (backup_cats env_honest (CatBackup ''tok'') ''cat'' ''grp'' world0))
         ''backup_info.json'' =
         Some (JObj [(''backup_info'', JObj
           [(''timestamp'', JStr ''2024-05-01T10:00:01''),
            (''text'', JStr ''cat''),
            (''group_name'', JStr ''grp''),
            (''files'', JArr [JObj
               [(''file_name'', JStr ''cat.jpg''),
                (''size'', JInt 3),
                (''created'', JStr ''2024-05-01T10:00:00''),
                (''path'', JStr ''disk:/grp/cat.jpg'')]])])])"
proof -
  have tr: "run_trace env_honest (CatBackup ''tok'') ''cat'' ''grp'' world0 =
      [Net (folder_request (CatBackup ''tok'') ''grp''),
       Net (image_request ''cat''),
       Net (upload_url_request (CatBackup ''tok'') ''grp'' ''cat''),
       Net (put_request ''https://uploader.example/slot'' [1, 2, 3]),
       Net (info_request (CatBackup ''tok'') ''grp'' ''cat''),
       OpenW ''backup_info.json'']"
    by (simp add: run_trace_eq run_effects_def upload_effects_def put_effects_def
          env_defs step_defs scripted_http)
  have op: "open_w env_honest ''backup_info.json'' = None"
    by (simp add: env_defs scripted_http)
  have up: "fst (upload_to_yandex env_honest (CatBackup ''tok'') ''grp'' ''cat'' [1, 2, 3] world0)
     = Inr (Some (JObj [(''file_name'', JStr ''cat.jpg''), (''size'', JInt 3),
                        (''created'', JStr ''2024-05-01T10:00:00''),
                        (''path'', JStr ''disk:/grp/cat.jpg'')]))"
    by (simp add: code_defs request_defs env_defs scripted_def respond_def write_target_def
          stored_as_def world0_def)
  have doc: "files (snd (backup_cats env_honest (CatBackup ''tok'') ''cat'' ''grp'' world0))
         ''backup_info.json'' =
         Some (JObj [(''backup_info'', JObj
           [(''timestamp'', JStr ''2024-05-01T10:00:01''),
            (''text'', JStr ''cat''),
            (''group_name'', JStr ''grp''),
            (''files'', JArr [JObj
               [(''file_name'', JStr ''cat.jpg''),
                (''size'', JInt 3),
                (''created'', JStr ''2024-05-01T10:00:00''),
                (''path'', JStr ''disk:/grp/cat.jpg'')]])])])"
    by (simp add: env_defs step_defs scripted_http world0_def run_files written_record_def
          backup_document_def file_entry_def)
  show ?thesis
    using remote_path_and_file_name [of env_honest "CatBackup ''tok''" "''cat''" "''grp''" world0
            "[1, 2, 3]" world0
            "JObj [(''file_name'', JStr ''cat.jpg''), (''size'', JInt 3),
                   (''created'', JStr ''2024-05-01T10:00:00''),
                   (''path'', JStr ''disk:/grp/cat.jpg'')]"] tr op up doc
    by (simp add: upload_url_request_def info_request_def CatBackup_def)
qed

end
